theory Spec2Isabelle
  imports Complex_Main
begin

section \<open>The panoramic viewer: data model\<close>

text \<open>
  The repository holds one React component, \<^verbatim>\<open>PanoramicViewer\<close>, in two files: the
  perspective variant (\<^verbatim>\<open>src/unnamed/part_000\<close>), which projects every hotspot through
  the camera each frame, and the percentage variant
  (\<^verbatim>\<open>src/src/components/PanoramicViewer.tsx\<close>), which places every hotspot by a fixed
  longitude/latitude formula. Both share the camera handling word for word, apart from
  the mouse-move handler.

  A JavaScript \<^verbatim>\<open>number\<close> is modelled as a \<^typ>\<open>real\<close>: \<^verbatim>\<open>Math.max\<close> and
  \<^verbatim>\<open>Math.min\<close> are \<^const>\<open>max\<close> and \<^const>\<open>min\<close>, \<^verbatim>\<open>Math.PI\<close> is \<^const>\<open>pi\<close>.
  Infinities and NaN are outside the model, and so is rounding, except for the zoom
  steps, which the last section of definitions takes in binary64.
\<close>

type_synonym vec3 = "real \<times> real \<times> real"

text \<open>The \<^verbatim>\<open>Hotspot\<close> interface; \<^verbatim>\<open>id\<close> is renamed, \<^const>\<open>id\<close> being the identity of HOL.\<close>

record hotspot =
  hotspot_id :: string
  position :: vec3
  title :: string
  description :: string
  details :: string

text \<open>
  Modelled from the spec: the rendering library's 4x4 matrix, missing from the
  repository; the sixteen entries in column-major order, \<open>el0\<close> to \<open>el3\<close> being the first
  column. \<open>identity_mat4\<close> is what \<^verbatim>\<open>new Matrix4()\<close> holds.
\<close>

record mat4 =
  el0 :: real
  el1 :: real
  el2 :: real
  el3 :: real
  el4 :: real
  el5 :: real
  el6 :: real
  el7 :: real
  el8 :: real
  el9 :: real
  el10 :: real
  el11 :: real
  el12 :: real
  el13 :: real
  el14 :: real
  el15 :: real

definition identity_mat4 :: mat4 where
  "identity_mat4 =
     \<lparr>el0 = 1, el1 = 0, el2 = 0, el3 = 0,
      el4 = 0, el5 = 1, el6 = 0, el7 = 0,
      el8 = 0, el9 = 0, el10 = 1, el11 = 0,
      el12 = 0, el13 = 0, el14 = 0, el15 = 1\<rparr>"

text \<open>
  The fields of \<^verbatim>\<open>THREE.PerspectiveCamera\<close> that the component reads or writes:
  \<^verbatim>\<open>camera.rotation.x\<close> (pitch), \<^verbatim>\<open>camera.rotation.y\<close> (yaw), \<^verbatim>\<open>camera.rotation.z\<close>,
  \<^verbatim>\<open>camera.fov\<close> in degrees, \<^verbatim>\<open>camera.aspect\<close>, and the two clip distances. The camera
  stays at the origin (\<^verbatim>\<open>camera.position.set(0, 0, 0)\<close>). \<^verbatim>\<open>camera.matrixWorldInverse\<close>
  is the view matrix the library keeps in the camera: \<^verbatim>\<open>vector.project(camera)\<close> reads it,
  writing \<^verbatim>\<open>camera.rotation\<close> does not change it, and rendering a frame refreshes it (see
  \<open>updateMatrixWorld\<close> and \<open>render\<close> below).
\<close>

record camera =
  rotation_x :: real
  rotation_y :: real
  rotation_z :: real
  fov :: real
  aspect :: real
  near :: real
  far :: real
  matrixWorldInverse :: mat4

text \<open>
  \<^verbatim>\<open>new THREE.PerspectiveCamera(fov, aspect, near, far)\<close>: a fresh camera is unrotated and
  its view matrix is the identity.
\<close>

definition PerspectiveCamera :: "real \<Rightarrow> real \<Rightarrow> real \<Rightarrow> real \<Rightarrow> camera" where
  "PerspectiveCamera f a n fr =
     \<lparr>rotation_x = 0, rotation_y = 0, rotation_z = 0, fov = f, aspect = a, near = n, far = fr,
      matrixWorldInverse = identity_mat4\<rparr>"

text \<open>
  \<^verbatim>\<open>window.innerWidth\<close> and \<^verbatim>\<open>window.innerHeight\<close>, read when the camera is made and
  by \<^verbatim>\<open>projectToScreen\<close>.
\<close>

record window =
  innerWidth :: real
  innerHeight :: real

text \<open>The texture handed to the success callback, and the sphere mesh built from it.\<close>

datatype texture = Texture string

record mesh =
  radius :: real
  widthSegments :: nat
  heightSegments :: nat
  scale_x :: real
  material_map :: texture

text \<open>The object \<^verbatim>\<open>{ x, y, visible }\<close> that \<^verbatim>\<open>projectToScreen\<close> returns.\<close>

record screen_anchor =
  screen_x :: real
  screen_y :: real
  visible :: bool

text \<open>
  The mutable state the component's closures share. \<^verbatim>\<open>cameraRef.current\<close> is
  \<^verbatim>\<open>undefined\<close> until the mount effect has run, and from then on it is the very object
  the effect's handlers close over as \<^verbatim>\<open>camera\<close>; \<open>sceneChildren\<close> is the content of
  \<^verbatim>\<open>scene\<close>; \<open>consoleErrors\<close> collects what \<^verbatim>\<open>console.error\<close> prints.
\<close>

record viewer =
  cameraRef :: "camera option"
  sceneChildren :: "mesh list"
  sphereRef :: "mesh option"
  isDragging :: bool
  previousMouse :: "real \<times> real"
  selectedHotspot :: "hotspot option"
  isLoading :: bool
  consoleErrors :: "string list"

text \<open>
  The perspective variant keeps one more piece of React state, \<^verbatim>\<open>hotspotPositions\<close>, the
  screen anchor of every hotspot by its id.
\<close>

record viewerA = viewer +
  hotspotPositions :: "string \<rightharpoonup> screen_anchor"

text \<open>
  The percentage variant keeps one more piece of React state, \<^verbatim>\<open>cameraRotation\<close>, which its
  mouse-move handler sets to the camera's \<open>(x, y)\<close> rotation.
\<close>

record viewerB = viewer +
  cameraRotation :: "real \<times> real"

text \<open>
  The state once the mount effect has run: the initial values of \<^verbatim>\<open>useRef\<close> and
  \<^verbatim>\<open>useState\<close>, and the camera
  \<^verbatim>\<open>new THREE.PerspectiveCamera(75, window.innerWidth / window.innerHeight, 0.1, 1000)\<close>.
\<close>

definition mount :: "window \<Rightarrow> viewer" where
  "mount win =
     \<lparr>cameraRef = Some (PerspectiveCamera 75 (innerWidth win / innerHeight win) 0.1 1000),
      sceneChildren = [], sphereRef = None, isDragging = False, previousMouse = (0, 0),
      selectedHotspot = None, isLoading = True, consoleErrors = []\<rparr>"

definition mountA :: "window \<Rightarrow> viewerA" where
  "mountA win =
     \<lparr>cameraRef = Some (PerspectiveCamera 75 (innerWidth win / innerHeight win) 0.1 1000),
      sceneChildren = [], sphereRef = None, isDragging = False, previousMouse = (0, 0),
      selectedHotspot = None, isLoading = True, consoleErrors = [], hotspotPositions = Map.empty\<rparr>"

definition mountB :: "window \<Rightarrow> viewerB" where
  "mountB win =
     \<lparr>cameraRef = Some (PerspectiveCamera 75 (innerWidth win / innerHeight win) 0.1 1000),
      sceneChildren = [], sphereRef = None, isDragging = False, previousMouse = (0, 0),
      selectedHotspot = None, isLoading = True, consoleErrors = [], cameraRotation = (0, 0)\<rparr>"

section \<open>Texture loading\<close>

text \<open>The two continuations passed to \<^verbatim>\<open>loader.load\<close>, the same in both files.\<close>

definition onLoad :: "texture \<Rightarrow> 'a viewer_scheme \<Rightarrow> 'a viewer_scheme" where
  "onLoad tex v =
     (let sphere = \<lparr>radius = 500, widthSegments = 60, heightSegments = 40,
                    scale_x = - 1, material_map = tex\<rparr>
      in v\<lparr>sceneChildren := sceneChildren v @ [sphere],
            sphereRef := Some sphere,
            isLoading := False\<rparr>)"

definition onError :: "string \<Rightarrow> 'a viewer_scheme \<Rightarrow> 'a viewer_scheme" where
  "onError err v =
     v\<lparr>consoleErrors := consoleErrors v @ [''Error loading panorama: '' @ err],
       isLoading := False\<rparr>"

section \<open>Interaction handlers\<close>

text \<open>
  The handlers are registered by the mount effect, after the camera is made; a state
  without a camera has no listener, which is the \<open>None\<close> branch below. The buttons test
  \<^verbatim>\<open>cameraRef.current\<close> themselves. Every write of \<^verbatim>\<open>camera.fov\<close> is followed by
  \<^verbatim>\<open>camera.updateProjectionMatrix()\<close>, so the projection matrix is a function of the
  camera's fields (see \<open>projectionMatrix\<close> below) and needs no field of its own.
\<close>

definition handleMouseDown :: "real \<times> real \<Rightarrow> 'a viewer_scheme \<Rightarrow> 'a viewer_scheme" where
  "handleMouseDown client v = v\<lparr>isDragging := True, previousMouse := client\<rparr>"

text \<open>\<^verbatim>\<open>handleMouseMove\<close> of the perspective variant (\<^verbatim>\<open>part_000\<close>, lines 140-156).\<close>

definition handleMouseMove :: "real \<times> real \<Rightarrow> 'a viewer_scheme \<Rightarrow> 'a viewer_scheme" where
  "handleMouseMove client v =
     (if \<not> isDragging v then v
      else case cameraRef v of
        None \<Rightarrow> v
      | Some cam \<Rightarrow>
          let deltaX = fst client - fst (previousMouse v);
              deltaY = snd client - snd (previousMouse v);
              cam1 = cam\<lparr>rotation_y := rotation_y cam - deltaX * 0.005\<rparr>;
              cam2 = cam1\<lparr>rotation_x := rotation_x cam1 - deltaY * 0.005\<rparr>;
              cam3 = cam2\<lparr>rotation_x := max (- pi / 2) (min (pi / 2) (rotation_x cam2))\<rparr>
          in v\<lparr>cameraRef := Some cam3, previousMouse := client\<rparr>)"

text \<open>
  \<^verbatim>\<open>handleMouseMove\<close> of the percentage variant (\<^verbatim>\<open>PanoramicViewer.tsx\<close>, lines
  128-150), which also copies the rotation into \<^verbatim>\<open>cameraRotation\<close>.
\<close>

definition handleMouseMoveB :: "real \<times> real \<Rightarrow> viewerB \<Rightarrow> viewerB" where
  "handleMouseMoveB client v =
     (if \<not> isDragging v then v
      else case cameraRef v of
        None \<Rightarrow> v
      | Some cam \<Rightarrow>
          let deltaX = fst client - fst (previousMouse v);
              deltaY = snd client - snd (previousMouse v);
              newRotationY = rotation_y cam - deltaX * 0.005;
              newRotationX = rotation_x cam - deltaY * 0.005;
              cam1 = cam\<lparr>rotation_y := newRotationY\<rparr>;
              cam2 = cam1\<lparr>rotation_x := max (- pi / 2) (min (pi / 2) newRotationX)\<rparr>
          in v\<lparr>cameraRef := Some cam2,
                cameraRotation := (rotation_x cam2, rotation_y cam2),
                previousMouse := client\<rparr>)"

definition handleMouseUp :: "'a viewer_scheme \<Rightarrow> 'a viewer_scheme" where
  "handleMouseUp v = v\<lparr>isDragging := False\<rparr>"

definition handleWheel :: "real \<Rightarrow> 'a viewer_scheme \<Rightarrow> 'a viewer_scheme" where
  "handleWheel deltaY v =
     (case cameraRef v of
        None \<Rightarrow> v
      | Some cam \<Rightarrow>
          let fov' = fov cam + deltaY * 0.05
          in v\<lparr>cameraRef := Some (cam\<lparr>fov := max 10 (min 120 fov')\<rparr>)\<rparr>)"

definition resetView :: "'a viewer_scheme \<Rightarrow> 'a viewer_scheme" where
  "resetView v =
     (case cameraRef v of
        None \<Rightarrow> v
      | Some cam \<Rightarrow>
          v\<lparr>cameraRef := Some (cam\<lparr>rotation_x := 0, rotation_y := 0, rotation_z := 0,
                                  fov := 75\<rparr>)\<rparr>)"

definition zoomIn :: "'a viewer_scheme \<Rightarrow> 'a viewer_scheme" where
  "zoomIn v =
     (case cameraRef v of
        None \<Rightarrow> v
      | Some cam \<Rightarrow> v\<lparr>cameraRef := Some (cam\<lparr>fov := max 10 (fov cam - 10)\<rparr>)\<rparr>)"

definition zoomOut :: "'a viewer_scheme \<Rightarrow> 'a viewer_scheme" where
  "zoomOut v =
     (case cameraRef v of
        None \<Rightarrow> v
      | Some cam \<Rightarrow> v\<lparr>cameraRef := Some (cam\<lparr>fov := min 120 (fov cam + 10)\<rparr>)\<rparr>)"

text \<open>
  The input events the page can deliver, and the listener or button each one reaches.
  \<open>dispatch\<close> is the perspective variant, \<open>dispatchB\<close> the percentage variant; \<open>run\<close>
  delivers a sequence of events in order.
\<close>

datatype event =
    MouseDown real real
  | MouseMove real real
  | MouseUp
  | Wheel real
  | ClickZoomIn
  | ClickZoomOut
  | ClickReset

fun dispatch :: "event \<Rightarrow> 'a viewer_scheme \<Rightarrow> 'a viewer_scheme" where
  "dispatch (MouseDown cx cy) v = handleMouseDown (cx, cy) v"
| "dispatch (MouseMove cx cy) v = handleMouseMove (cx, cy) v"
| "dispatch MouseUp v = handleMouseUp v"
| "dispatch (Wheel dy) v = handleWheel dy v"
| "dispatch ClickZoomIn v = zoomIn v"
| "dispatch ClickZoomOut v = zoomOut v"
| "dispatch ClickReset v = resetView v"

fun dispatchB :: "event \<Rightarrow> viewerB \<Rightarrow> viewerB" where
  "dispatchB (MouseDown cx cy) v = handleMouseDown (cx, cy) v"
| "dispatchB (MouseMove cx cy) v = handleMouseMoveB (cx, cy) v"
| "dispatchB MouseUp v = handleMouseUp v"
| "dispatchB (Wheel dy) v = handleWheel dy v"
| "dispatchB ClickZoomIn v = zoomIn v"
| "dispatchB ClickZoomOut v = zoomOut v"
| "dispatchB ClickReset v = resetView v"

fun run :: "(event \<Rightarrow> 's \<Rightarrow> 's) \<Rightarrow> event list \<Rightarrow> 's \<Rightarrow> 's" where
  "run d [] v = v"
| "run d (e # es) v = run d es (d e v)"

section \<open>Hotspot placement, percentage variant\<close>

text \<open>
  JavaScript's \<^verbatim>\<open>%\<close> on numbers: the remainder of the division truncated towards zero,
  with the sign of the dividend. The divisor in the source is the constant 360.
\<close>

definition js_rem :: "real \<Rightarrow> real \<Rightarrow> real" where
  "js_rem a b = a - b * of_int (if 0 \<le> a / b then \<lfloor>a / b\<rfloor> else \<lceil>a / b\<rceil>)"

text \<open>
  \<^verbatim>\<open>getScreenPosition\<close> returns the CSS strings \<^verbatim>\<open>`${x * 100}%`\<close> and
  \<^verbatim>\<open>`${y * 100}%`\<close>; the record holds the two numbers printed before the percent sign.
\<close>

record screen_pos =
  left_pct :: real
  top_pct :: real

definition getScreenPosition :: "real \<Rightarrow> real \<Rightarrow> screen_pos" where
  "getScreenPosition longitude latitude =
     (let x = js_rem (longitude + 180) 360 / 360;
          y = (90 - latitude) / 180
      in \<lparr>left_pct = x * 100, top_pct = y * 100\<rparr>)"

text \<open>The hotspot list of the percentage variant.\<close>

definition hotspots :: "hotspot list" where
  "hotspots =
    [\<lparr>hotspot_id = ''jersey-display'', position = (45, - 5, - 8),
      title = ''Vintage Jerseys Collection'',
      description = ''Historic basketball jerseys from legendary players'',
      details = ''This display features authentic game-worn jerseys from basketball legends including Michael Jordan's Chicago Bulls #23, Magic Johnson's Lakers #32, and Larry Bird's Celtics #33. Each jersey represents a pivotal moment in basketball history.''\<rparr>,
     \<lparr>hotspot_id = ''trophy-case'', position = (- 90, 10, - 6),
      title = ''Championship Trophies'',
      description = ''NBA Championship trophies and awards'',
      details = ''The Larry O'Brien Trophy collection showcasing championship victories from different eras. These trophies represent the pinnacle of basketball achievement and the dedication of championship teams.''\<rparr>,
     \<lparr>hotspot_id = ''basketball-collection'', position = (135, - 10, 4),
      title = ''Signed Basketball Collection'',
      description = ''Game balls signed by basketball legends'',
      details = ''A curated collection of basketballs signed by Hall of Fame players, including rare game balls from historic matches, All-Star games, and playoff series that defined basketball history.''\<rparr>,
     \<lparr>hotspot_id = ''poster-gallery'', position = (- 135, 5, 2),
      title = ''Basketball Poster Gallery'',
      description = ''Iconic basketball posters and memorabilia'',
      details = ''Vintage promotional posters, championship banners, and rare photographs capturing the golden moments of basketball. These pieces showcase the evolution of the sport's visual culture.''\<rparr>]"

text \<open>
  The callback of \<^verbatim>\<open>hotspots.map\<close> in the render function (lines 266-274): the whole
  component state is in scope, and the style of a marker is computed from
  \<^verbatim>\<open>hotspot.position[0]\<close> and \<^verbatim>\<open>hotspot.position[1]\<close>.
\<close>

definition hotspotStyle :: "viewerB \<Rightarrow> hotspot \<Rightarrow> screen_pos" where
  "hotspotStyle v h = getScreenPosition (fst (position h)) (fst (snd (position h)))"

definition renderHotspots :: "viewerB \<Rightarrow> (string \<times> screen_pos) list" where
  "renderHotspots v = map (\<lambda>h. (hotspot_id h, hotspotStyle v h)) hotspots"

section \<open>Hotspot placement, perspective variant\<close>

text \<open>
  \<^verbatim>\<open>projectToScreen\<close> calls \<^verbatim>\<open>vector.project(camera)\<close> of the rendering library, which
  is not part of the repository. The definitions from \<open>applyMatrix4\<close> to \<open>project\<close> stand
  for it, and \<open>render\<close> for the library's renderer; \<open>projectToScreen\<close>,
  \<open>updateHotspotPositions\<close> and \<open>animate\<close> are the repository's code.
\<close>

text \<open>
  Modelled from the spec: the library's \<^verbatim>\<open>Vector3.applyMatrix4\<close>, missing from the
  repository: the spec's transform "into normalized device coordinates" multiplies the
  point, extended by 1, with the matrix and divides by the fourth component. Where that
  component is 0 the library yields infinities or NaN and the model says nothing.
\<close>

definition applyMatrix4 :: "mat4 \<Rightarrow> vec3 \<Rightarrow> vec3" where
  "applyMatrix4 m v =
     (case v of (x, y, z) \<Rightarrow>
        let w = 1 / (el3 m * x + el7 m * y + el11 m * z + el15 m)
        in ((el0 m * x + el4 m * y + el8 m * z + el12 m) * w,
            (el1 m * x + el5 m * y + el9 m * z + el13 m) * w,
            (el2 m * x + el6 m * y + el10 m * z + el14 m) * w))"

text \<open>
  Modelled from the spec: the library's \<^verbatim>\<open>Matrix4.makeRotationFromEuler\<close> for the
  default order XYZ, missing from the repository: the camera's orientation as a matrix,
  built from the three rotation angles.
\<close>

definition makeRotationFromEuler :: "real \<Rightarrow> real \<Rightarrow> real \<Rightarrow> mat4" where
  "makeRotationFromEuler ex ey ez =
     (let a = cos ex; b = sin ex;
          c = cos ey; d = sin ey;
          e = cos ez; f = sin ez
      in \<lparr>el0 = c * e, el1 = a * f + b * e * d, el2 = b * f - a * e * d, el3 = 0,
          el4 = - c * f, el5 = a * e - b * f * d, el6 = b * e + a * f * d, el7 = 0,
          el8 = d, el9 = - b * c, el10 = a * c, el11 = 0,
          el12 = 0, el13 = 0, el14 = 0, el15 = 1\<rparr>)"

text \<open>
  Modelled from the spec: the camera's \<^verbatim>\<open>matrixWorld\<close>, missing from the repository: a
  camera at the origin with unit scale has its rotation as world matrix.
\<close>

definition matrixWorld :: "camera \<Rightarrow> mat4" where
  "matrixWorld cam = makeRotationFromEuler (rotation_x cam) (rotation_y cam) (rotation_z cam)"

definition transpose_mat4 :: "mat4 \<Rightarrow> mat4" where
  "transpose_mat4 m =
     \<lparr>el0 = el0 m, el1 = el4 m, el2 = el8 m, el3 = el12 m,
      el4 = el1 m, el5 = el5 m, el6 = el9 m, el7 = el13 m,
      el8 = el2 m, el9 = el6 m, el10 = el10 m, el11 = el14 m,
      el12 = el3 m, el13 = el7 m, el14 = el11 m, el15 = el15 m\<rparr>"

text \<open>
  Modelled from the spec: the library's \<^verbatim>\<open>Camera.updateMatrixWorld\<close>, missing from the
  repository: it stores the inverse of the camera's world matrix, the view half of the
  spec's "view-projection transform", in \<^verbatim>\<open>camera.matrixWorldInverse\<close>. The inverse of a
  rotation is its transpose.
\<close>

definition updateMatrixWorld :: "camera \<Rightarrow> camera" where
  "updateMatrixWorld cam = cam\<lparr>matrixWorldInverse := transpose_mat4 (matrixWorld cam)\<rparr>"

text \<open>
  Modelled from the spec: the library's \<^verbatim>\<open>Camera.getWorldDirection\<close>, missing from the
  repository: the direction the camera looks in, the negated third column of the world
  matrix of its current angles.
\<close>

definition getWorldDirection :: "camera \<Rightarrow> vec3" where
  "getWorldDirection cam =
     (let m = matrixWorld cam in (- el8 m, - el9 m, - el10 m))"

text \<open>
  Modelled from the spec: the library's \<^verbatim>\<open>Matrix4.makePerspective\<close>, missing from the
  repository: the projection half of the spec's "view-projection transform".
\<close>

definition makePerspective :: "real \<Rightarrow> real \<Rightarrow> real \<Rightarrow> real \<Rightarrow> real \<Rightarrow> real \<Rightarrow> mat4" where
  "makePerspective left' right' top' bottom' n fr =
     (let x = 2 * n / (right' - left');
          y = 2 * n / (top' - bottom');
          a = (right' + left') / (right' - left');
          b = (top' + bottom') / (top' - bottom');
          c = - (fr + n) / (fr - n);
          d = - 2 * fr * n / (fr - n)
      in \<lparr>el0 = x, el1 = 0, el2 = 0, el3 = 0,
          el4 = 0, el5 = y, el6 = 0, el7 = 0,
          el8 = a, el9 = b, el10 = c, el11 = - 1,
          el12 = 0, el13 = 0, el14 = d, el15 = 0\<rparr>)"

text \<open>
  Modelled from the spec: the matrix that the library's
  \<^verbatim>\<open>PerspectiveCamera.updateProjectionMatrix\<close> stores, missing from the repository; the
  field of view is in degrees and the camera's zoom factor is 1.
\<close>

definition projectionMatrix :: "camera \<Rightarrow> mat4" where
  "projectionMatrix cam =
     (let top' = near cam * tan (pi / 180 * 0.5 * fov cam);
          height = 2 * top';
          width = aspect cam * height;
          left' = - 0.5 * width
      in makePerspective left' (left' + width) top' (top' - height) (near cam) (far cam))"

text \<open>
  Modelled from the spec: the library's \<^verbatim>\<open>Vector3.project\<close>, missing from the
  repository: "transform its 3D position through the camera's view-projection transform
  into normalized device coordinates". It reads the view matrix stored in the camera.
\<close>

definition project :: "vec3 \<Rightarrow> camera \<Rightarrow> vec3" where
  "project v cam = applyMatrix4 (projectionMatrix cam) (applyMatrix4 (matrixWorldInverse cam) v)"

text \<open>\<^verbatim>\<open>projectToScreen\<close> of the perspective variant (\<^verbatim>\<open>part_000\<close>, lines 63-72).\<close>

definition projectToScreen :: "window \<Rightarrow> vec3 \<Rightarrow> camera \<Rightarrow> screen_anchor" where
  "projectToScreen win worldPosition cam =
     (case project worldPosition cam of (vx, vy, vz) \<Rightarrow>
        \<lparr>screen_x = (vx + 1) * innerWidth win / 2,
         screen_y = (- vy + 1) * innerHeight win / 2,
         visible = (vz < 1)\<rparr>)"

text \<open>The hotspot list of the perspective variant, in world coordinates.\<close>

definition hotspots_perspective :: "hotspot list" where
  "hotspots_perspective =
    [\<lparr>hotspot_id = ''jersey-display'', position = (100, 0, - 200),
      title = ''Vintage Jerseys Collection'',
      description = ''Historic basketball jerseys from legendary players'',
      details = ''This display features authentic game-worn jerseys from basketball legends including Michael Jordan's Chicago Bulls #23, Magic Johnson's Lakers #32, and Larry Bird's Celtics #33. Each jersey represents a pivotal moment in basketball history.''\<rparr>,
     \<lparr>hotspot_id = ''trophy-case'', position = (- 200, 20, - 100),
      title = ''Championship Trophies'',
      description = ''NBA Championship trophies and awards'',
      details = ''The Larry O'Brien Trophy collection showcasing championship victories from different eras. These trophies represent the pinnacle of basketball achievement and the dedication of championship teams.''\<rparr>,
     \<lparr>hotspot_id = ''basketball-collection'', position = (- 100, - 20, 200),
      title = ''Signed Basketball Collection'',
      description = ''Game balls signed by basketball legends'',
      details = ''A curated collection of basketballs signed by Hall of Fame players, including rare game balls from historic matches, All-Star games, and playoff series that defined basketball history.''\<rparr>,
     \<lparr>hotspot_id = ''poster-gallery'', position = (200, 10, 100),
      title = ''Basketball Poster Gallery'',
      description = ''Iconic basketball posters and memorabilia'',
      details = ''Vintage promotional posters, championship banners, and rare photographs capturing the golden moments of basketball. These pieces showcase the evolution of the sport's visual culture.''\<rparr>]"

text \<open>
  \<^verbatim>\<open>updateHotspotPositions\<close> (\<^verbatim>\<open>part_000\<close>, lines 75-84): every hotspot is projected
  through \<^verbatim>\<open>cameraRef.current\<close> and the anchors replace the state.
\<close>

definition updateHotspotPositions :: "window \<Rightarrow> viewerA \<Rightarrow> viewerA" where
  "updateHotspotPositions win v =
     (case cameraRef v of
        None \<Rightarrow> v
      | Some cam \<Rightarrow>
          v\<lparr>hotspotPositions :=
               foldl (\<lambda>newPositions hotspot.
                        newPositions(hotspot_id hotspot \<mapsto> projectToScreen win (position hotspot) cam))
                     Map.empty hotspots_perspective\<rparr>)"

text \<open>
  Modelled from the spec: the library's \<^verbatim>\<open>WebGLRenderer.render\<close>, missing from the
  repository: of what it does the model keeps the part the component's code can observe,
  the refresh of the camera's matrices before the frame is drawn.
\<close>

definition render :: "'a viewer_scheme \<Rightarrow> 'a viewer_scheme" where
  "render v =
     (case cameraRef v of
        None \<Rightarrow> v
      | Some cam \<Rightarrow> v\<lparr>cameraRef := Some (updateMatrixWorld cam)\<rparr>)"

text \<open>
  One run of \<^verbatim>\<open>animate\<close> (\<^verbatim>\<open>part_000\<close>, lines 183-187): the hotspots are projected
  first and the frame is rendered after. The mount effect runs it once, and
  \<^verbatim>\<open>requestAnimationFrame\<close> runs it again for every frame.
\<close>

definition animate :: "window \<Rightarrow> viewerA \<Rightarrow> viewerA" where
  "animate win v = render (updateHotspotPositions win v)"

text \<open>The scalar product, and the point at distance \<open>t\<close> from the origin in direction \<open>d\<close>.\<close>

definition dot :: "vec3 \<Rightarrow> vec3 \<Rightarrow> real" where
  "dot u v = (case u of (ux, uy, uz) \<Rightarrow> case v of (vx, vy, vz) \<Rightarrow> ux * vx + uy * vy + uz * vz)"


section \<open>Zoom steps in binary64\<close>

text \<open>
  Whether a zoom step can be undone exactly depends on the rounding of the sum and the
  difference, so for this question \<^verbatim>\<open>fov + 10\<close> and \<^verbatim>\<open>fov - 10\<close> are taken as the
  binary64 operations they are: the exact result, rounded to the nearest number with a
  53-bit significand, a tie going to the even significand. \<open>fl64\<close> is that rounding for
  numbers of normal size; overflow and subnormal numbers, which no zoom step comes near,
  are left out.
\<close>

definition round_half_even :: "real \<Rightarrow> int" where
  "round_half_even y =
     (let n = \<lfloor>y\<rfloor>; r = y - of_int n
      in if r < 1 / 2 then n else if 1 / 2 < r then n + 1 else if even n then n else n + 1)"

definition fl64 :: "real \<Rightarrow> real" where
  "fl64 x =
     (if x = 0 then 0
      else let u = 2 powr of_int (\<lfloor>log 2 \<bar>x\<bar>\<rfloor> - 52)
           in of_int (round_half_even (x / u)) * u)"

text \<open>\<^verbatim>\<open>zoomIn\<close> and \<^verbatim>\<open>zoomOut\<close> of both files, with the rounding of the step.\<close>

definition zoomIn64 :: "'a viewer_scheme \<Rightarrow> 'a viewer_scheme" where
  "zoomIn64 v =
     (case cameraRef v of
        None \<Rightarrow> v
      | Some cam \<Rightarrow> v\<lparr>cameraRef := Some (cam\<lparr>fov := max 10 (fl64 (fov cam - 10))\<rparr>)\<rparr>)"

definition zoomOut64 :: "'a viewer_scheme \<Rightarrow> 'a viewer_scheme" where
  "zoomOut64 v =
     (case cameraRef v of
        None \<Rightarrow> v
      | Some cam \<Rightarrow> v\<lparr>cameraRef := Some (cam\<lparr>fov := min 120 (fl64 (fov cam + 10))\<rparr>)\<rparr>)"

section \<open>Hotspot placement does not read the camera (percentage variant)\<close>

text \<open>
  C1. In the percentage variant the style of a marker is the same in any two component
  states, whatever their cameras' yaw, pitch and field of view: it is determined by the
  first two components of the hotspot's position. The list of markers rendered is
  therefore the same in every state.
\<close>

theorem percentage_ignores_camera:
  assumes "fst (position h) = fst (position h')"
    and "fst (snd (position h)) = fst (snd (position h'))"
  shows "hotspotStyle v h = hotspotStyle v' h' \<and> renderHotspots v = renderHotspots v'"
  using assms by (simp add: hotspotStyle_def renderHotspots_def)

text \<open>
  An instance: two hotspots that differ in identity and third coordinate, seen once by a
  freshly mounted viewer and once after a drag and a scroll have turned and zoomed the
  camera.
\<close>

theorem percentage_ignores_camera_witness:
  "fst (position \<lparr>hotspot_id = ''a'', position = (45, - 5, - 8), title = ''A'',
                   description = [], details = []\<rparr>) =
   fst (position \<lparr>hotspot_id = ''b'', position = (45, - 5, 3), title = ''B'',
                   description = [], details = []\<rparr>) \<and>
   fst (snd (position \<lparr>hotspot_id = ''a'', position = (45, - 5, - 8), title = ''A'',
                        description = [], details = []\<rparr>)) =
   fst (snd (position \<lparr>hotspot_id = ''b'', position = (45, - 5, 3), title = ''B'',
                        description = [], details = []\<rparr>)) \<and>
   hotspotStyle (mountB \<lparr>innerWidth = 1600, innerHeight = 900\<rparr>)
       \<lparr>hotspot_id = ''a'', position = (45, - 5, - 8), title = ''A'',
        description = [], details = []\<rparr> =
   hotspotStyle (run dispatchB [MouseDown 0 0, MouseMove 300 50, Wheel 200]
                   (mountB \<lparr>innerWidth = 1600, innerHeight = 900\<rparr>))
       \<lparr>hotspot_id = ''b'', position = (45, - 5, 3), title = ''B'',
        description = [], details = []\<rparr> \<and>
   renderHotspots (mountB \<lparr>innerWidth = 1600, innerHeight = 900\<rparr>) =
   renderHotspots (run dispatchB [MouseDown 0 0, MouseMove 300 50, Wheel 200]
                     (mountB \<lparr>innerWidth = 1600, innerHeight = 900\<rparr>))"
  using percentage_ignores_camera
    [of "\<lparr>hotspot_id = ''a'', position = (45, - 5, - 8), title = ''A'',
          description = [], details = []\<rparr>"
        "\<lparr>hotspot_id = ''b'', position = (45, - 5, 3), title = ''B'',
          description = [], details = []\<rparr>"
        "mountB \<lparr>innerWidth = 1600, innerHeight = 900\<rparr>"
        "run dispatchB [MouseDown 0 0, MouseMove 300 50, Wheel 200]
           (mountB \<lparr>innerWidth = 1600, innerHeight = 900\<rparr>)"]
  by simp

section \<open>Clamping of pitch and field of view\<close>

lemmas handler_defs =
  handleMouseDown_def handleMouseMove_def handleMouseMoveB_def handleMouseUp_def
  handleWheel_def resetView_def zoomIn_def zoomOut_def

text \<open>A property that every handler preserves holds after any sequence of events.\<close>

lemma run_invariant:
  assumes step: "\<And>e v. P v \<Longrightarrow> P (d e v)"
  shows "P v \<Longrightarrow> P (run d evs v)"
  by (induction evs arbitrary: v) (simp_all add: step)

lemma clamp_pitch:
  "- pi / 2 \<le> max (- pi / 2) (min (pi / 2) r) \<and> max (- pi / 2) (min (pi / 2) r) \<le> pi / 2"
  using pi_ge_zero by (auto simp: max_def min_def)

lemma dispatch_pitch:
  assumes "cameraRef v = Some c" "- pi / 2 \<le> rotation_x c" "rotation_x c \<le> pi / 2"
  shows "\<exists>c'. cameraRef (dispatch e v) = Some c' \<and>
           - pi / 2 \<le> rotation_x c' \<and> rotation_x c' \<le> pi / 2"
proof (cases e)
  case (MouseMove cx cy)
  then show ?thesis using assms clamp_pitch
    by (simp add: handleMouseMove_def Let_def)
qed (use assms pi_ge_zero in \<open>simp_all add: handler_defs Let_def\<close>)

lemma dispatchB_pitch:
  assumes "cameraRef v = Some c" "- pi / 2 \<le> rotation_x c" "rotation_x c \<le> pi / 2"
  shows "\<exists>c'. cameraRef (dispatchB e v) = Some c' \<and>
           - pi / 2 \<le> rotation_x c' \<and> rotation_x c' \<le> pi / 2"
proof (cases e)
  case (MouseMove cx cy)
  then show ?thesis using assms clamp_pitch
    by (simp add: handleMouseMoveB_def Let_def)
qed (use assms pi_ge_zero in \<open>simp_all add: handler_defs Let_def\<close>)

text \<open>
  C2. Starting from a camera whose pitch lies in \<open>[-\<pi>/2, \<pi>/2]\<close>, the pitch lies in that
  interval after any sequence of events, in both variants of the component. The sequence
  is arbitrary, so this holds after every single mouse move of a drag, however large
  the pointer deltas are.
\<close>

theorem pitch_stays_clamped:
  fixes v :: viewer and w :: viewerB
  assumes "cameraRef v = Some c" and "cameraRef w = Some c"
    and "- pi / 2 \<le> rotation_x c" and "rotation_x c \<le> pi / 2"
  shows "(\<exists>c'. cameraRef (run dispatch evs v) = Some c' \<and>
            - pi / 2 \<le> rotation_x c' \<and> rotation_x c' \<le> pi / 2) \<and>
         (\<exists>c'. cameraRef (run dispatchB evs w) = Some c' \<and>
            - pi / 2 \<le> rotation_x c' \<and> rotation_x c' \<le> pi / 2)"
proof
  let ?P = "\<lambda>s::viewer. \<exists>c'. cameraRef s = Some c' \<and>
              - pi / 2 \<le> rotation_x c' \<and> rotation_x c' \<le> pi / 2"
  have "?P v" using assms by simp
  then show "?P (run dispatch evs v)"
    by (rule run_invariant [where P = ?P, rotated]) (use dispatch_pitch in blast)
next
  let ?P = "\<lambda>s::viewerB. \<exists>c'. cameraRef s = Some c' \<and>
              - pi / 2 \<le> rotation_x c' \<and> rotation_x c' \<le> pi / 2"
  have "?P w" using assms by simp
  then show "?P (run dispatchB evs w)"
    by (rule run_invariant [where P = ?P, rotated]) (use dispatchB_pitch in blast)
qed

text \<open>An instance: a drag far upwards and then far downwards, from the mounted viewer.\<close>

theorem pitch_stays_clamped_witness:
  "cameraRef (mount \<lparr>innerWidth = 1600, innerHeight = 900\<rparr>) =
     Some (PerspectiveCamera 75 (1600 / 900) 0.1 1000) \<and>
   cameraRef (mountB \<lparr>innerWidth = 1600, innerHeight = 900\<rparr>) =
     Some (PerspectiveCamera 75 (1600 / 900) 0.1 1000) \<and>
   - pi / 2 \<le> rotation_x (PerspectiveCamera 75 (1600 / 900) 0.1 1000) \<and>
   rotation_x (PerspectiveCamera 75 (1600 / 900) 0.1 1000) \<le> pi / 2 \<and>
   (\<exists>c'. cameraRef (run dispatch
                       [MouseDown 100 100, MouseMove 100 (- 100000), MouseMove 90 400000]
                       (mount \<lparr>innerWidth = 1600, innerHeight = 900\<rparr>)) = Some c' \<and>
          - pi / 2 \<le> rotation_x c' \<and> rotation_x c' \<le> pi / 2) \<and>
   (\<exists>c'. cameraRef (run dispatchB
                       [MouseDown 100 100, MouseMove 100 (- 100000), MouseMove 90 400000]
                       (mountB \<lparr>innerWidth = 1600, innerHeight = 900\<rparr>)) = Some c' \<and>
          - pi / 2 \<le> rotation_x c' \<and> rotation_x c' \<le> pi / 2)"
proof -
  have h1: "cameraRef (mount \<lparr>innerWidth = 1600, innerHeight = 900\<rparr>) =
              Some (PerspectiveCamera 75 (1600 / 900) 0.1 1000)"
    by (simp add: mount_def)
  have h2: "cameraRef (mountB \<lparr>innerWidth = 1600, innerHeight = 900\<rparr>) =
              Some (PerspectiveCamera 75 (1600 / 900) 0.1 1000)"
    by (simp add: mountB_def)
  have h3: "- pi / 2 \<le> rotation_x (PerspectiveCamera 75 (1600 / 900) 0.1 1000)"
    using pi_ge_zero by (simp add: PerspectiveCamera_def)
  have h4: "rotation_x (PerspectiveCamera 75 (1600 / 900) 0.1 1000) \<le> pi / 2"
    using pi_ge_zero by (simp add: PerspectiveCamera_def)
  from pitch_stays_clamped [OF h1 h2 h3 h4] h1 h2 h3 h4 show ?thesis by blast
qed

lemma dispatch_fov:
  assumes "cameraRef v = Some c" "10 \<le> fov c" "fov c \<le> 120"
  shows "\<exists>c'. cameraRef (dispatch e v) = Some c' \<and> 10 \<le> fov c' \<and> fov c' \<le> 120"
  using assms by (cases e) (simp_all add: handler_defs Let_def)

lemma dispatchB_fov:
  assumes "cameraRef v = Some c" "10 \<le> fov c" "fov c \<le> 120"
  shows "\<exists>c'. cameraRef (dispatchB e v) = Some c' \<and> 10 \<le> fov c' \<and> fov c' \<le> 120"
  using assms by (cases e) (simp_all add: handler_defs Let_def)

text \<open>
  C3. Starting from a camera whose field of view lies in \<open>[10, 120]\<close>, the field of view
  lies in that interval after any sequence of events (scroll-wheel events of any
  \<open>deltaY\<close>, the zoom-in, zoom-out and reset buttons, and the mouse events as well), in
  both variants of the component.
\<close>

theorem fov_stays_clamped:
  fixes v :: viewer and w :: viewerB
  assumes "cameraRef v = Some c" and "cameraRef w = Some c"
    and "10 \<le> fov c" and "fov c \<le> 120"
  shows "(\<exists>c'. cameraRef (run dispatch evs v) = Some c' \<and> 10 \<le> fov c' \<and> fov c' \<le> 120) \<and>
         (\<exists>c'. cameraRef (run dispatchB evs w) = Some c' \<and> 10 \<le> fov c' \<and> fov c' \<le> 120)"
proof
  let ?P = "\<lambda>s::viewer. \<exists>c'. cameraRef s = Some c' \<and> 10 \<le> fov c' \<and> fov c' \<le> 120"
  have "?P v" using assms by simp
  then show "?P (run dispatch evs v)"
    by (rule run_invariant [where P = ?P, rotated]) (use dispatch_fov in blast)
next
  let ?P = "\<lambda>s::viewerB. \<exists>c'. cameraRef s = Some c' \<and> 10 \<le> fov c' \<and> fov c' \<le> 120"
  have "?P w" using assms by simp
  then show "?P (run dispatchB evs w)"
    by (rule run_invariant [where P = ?P, rotated]) (use dispatchB_fov in blast)
qed

text \<open>An instance: scrolling far out and far in, with button presses in between.\<close>

theorem fov_stays_clamped_witness:
  "cameraRef (mount \<lparr>innerWidth = 1600, innerHeight = 900\<rparr>) =
     Some (PerspectiveCamera 75 (1600 / 900) 0.1 1000) \<and>
   cameraRef (mountB \<lparr>innerWidth = 1600, innerHeight = 900\<rparr>) =
     Some (PerspectiveCamera 75 (1600 / 900) 0.1 1000) \<and>
   10 \<le> fov (PerspectiveCamera 75 (1600 / 900) 0.1 1000) \<and>
   fov (PerspectiveCamera 75 (1600 / 900) 0.1 1000) \<le> 120 \<and>
   (\<exists>c'. cameraRef (run dispatch
                       [Wheel 100000, ClickZoomOut, Wheel (- 5000), ClickZoomIn, ClickReset]
                       (mount \<lparr>innerWidth = 1600, innerHeight = 900\<rparr>)) = Some c' \<and>
          10 \<le> fov c' \<and> fov c' \<le> 120) \<and>
   (\<exists>c'. cameraRef (run dispatchB
                       [Wheel 100000, ClickZoomOut, Wheel (- 5000), ClickZoomIn, ClickReset]
                       (mountB \<lparr>innerWidth = 1600, innerHeight = 900\<rparr>)) = Some c' \<and>
          10 \<le> fov c' \<and> fov c' \<le> 120)"
proof -
  have h1: "cameraRef (mount \<lparr>innerWidth = 1600, innerHeight = 900\<rparr>) =
              Some (PerspectiveCamera 75 (1600 / 900) 0.1 1000)"
    by (simp add: mount_def)
  have h2: "cameraRef (mountB \<lparr>innerWidth = 1600, innerHeight = 900\<rparr>) =
              Some (PerspectiveCamera 75 (1600 / 900) 0.1 1000)"
    by (simp add: mountB_def)
  have h3: "10 \<le> fov (PerspectiveCamera 75 (1600 / 900) 0.1 1000)"
    by (simp add: PerspectiveCamera_def)
  have h4: "fov (PerspectiveCamera 75 (1600 / 900) 0.1 1000) \<le> 120"
    by (simp add: PerspectiveCamera_def)
  from fov_stays_clamped [OF h1 h2 h3 h4] h1 h2 h3 h4 show ?thesis by blast
qed

section \<open>The end points of the percentage mapping\<close>

text \<open>
  At longitude 180 the remainder \<open>(180 + 180) % 360\<close> is 0, so the marker is placed at
  0 percent, a full 100 points away from 100 percent.
\<close>

theorem percentage_mapping_ends_counterexample:
  "left_pct (getScreenPosition 180 0) = 0 \<and> \<bar>left_pct (getScreenPosition 180 0) - 100\<bar> = 100"
  by (simp add: getScreenPosition_def js_rem_def)

text \<open>
  C4, amended. The mapping sends longitude -180 to 0 percent and, by the wrap of the
  remainder, longitude 180 to 0 percent as well; the horizontal percentage comes close to
  100 only just below 180 (99.9 percent at longitude 179.64). Latitude 90 goes to 0
  percent and latitude -90 to 100 percent.
\<close>

theorem percentage_mapping_ends:
  "left_pct (getScreenPosition (- 180) latitude) = 0 \<and>
   left_pct (getScreenPosition 180 latitude) = 0 \<and>
   left_pct (getScreenPosition 179.64 latitude) = 99.9 \<and>
   top_pct (getScreenPosition longitude 90) = 0 \<and>
   top_pct (getScreenPosition longitude (- 90)) = 100"
  by (simp add: getScreenPosition_def js_rem_def)

section \<open>Perspective projection\<close>

text \<open>The depth after the perspective divide, and its sign behind the camera.\<close>

lemma perspective_divide:
  fixes p q z :: real
  shows "(- p * z + - q) * (1 / (- z)) = (p * z + q) / z"
  by (cases "z = 0") (simp_all add: field_simps)

lemma projection_depth:
  "snd (snd (applyMatrix4 (projectionMatrix cam) (vx, vy, vz))) =
     (- (far cam + near cam) / (far cam - near cam) * vz
        + - 2 * far cam * near cam / (far cam - near cam)) * (1 / (- vz))"
  by (simp add: applyMatrix4_def projectionMatrix_def makePerspective_def Let_def)

lemma ndc_behind:
  fixes n f zv :: real
  assumes "0 < n" "n < f" "0 < zv"
  shows "1 < (- (f + n) / (f - n) * zv + - 2 * f * n / (f - n)) * (1 / (- zv))"
proof -
  define r where "r = (f + n) / (f - n)"
  define q where "q = 2 * f * n / (f - n)"
  have r: "1 < r" using assms by (simp add: r_def pos_less_divide_eq)
  have q: "0 < q" using assms by (simp add: q_def)
  have "- (f + n) / (f - n) = - r" "- 2 * f * n / (f - n) = - q"
    by (simp_all only: r_def q_def minus_divide_left mult_minus_left)
  then have e: "(- (f + n) / (f - n) * zv + - 2 * f * n / (f - n)) * (1 / (- zv))
           = (- r * zv + - q) * (1 / (- zv))"
    by (simp only:)
  have "1 * zv < r * zv" using r assms(3) by (rule mult_strict_right_mono)
  then have "zv < r * zv + q" using q by simp
  then have "1 < (r * zv + q) / zv" using assms(3) by (simp add: pos_less_divide_eq)
  then show ?thesis unfolding e perspective_divide .
qed

text \<open>
  A point that the stored view matrix takes to a positive depth, that is behind the
  camera as it was when that matrix was stored, is projected with \<open>visible = false\<close>.
\<close>

lemma behind_stored_view_not_visible:
  assumes "0 < near cam" and "near cam < far cam"
    and "applyMatrix4 (matrixWorldInverse cam) worldPosition = (vx, vy, vz)" and "0 < vz"
  shows "visible (projectToScreen win worldPosition cam) = False"
proof -
  have "1 < snd (snd (project worldPosition cam))"
    unfolding project_def assms(3) projection_depth
    using ndc_behind [OF assms(1,2,4)] .
  then show ?thesis
    by (cases "project worldPosition cam") (simp add: projectToScreen_def)
qed

text \<open>
  Right after a frame is rendered the stored view matrix belongs to the camera's angles,
  and then every point strictly behind the camera is projected with \<open>visible = false\<close>.
\<close>

lemma view_depth_rendered:
  "applyMatrix4 (matrixWorldInverse (updateMatrixWorld cam)) (x, y, z) =
     (el0 (matrixWorld cam) * x + el1 (matrixWorld cam) * y + el2 (matrixWorld cam) * z,
      el4 (matrixWorld cam) * x + el5 (matrixWorld cam) * y + el6 (matrixWorld cam) * z,
      - dot (x, y, z) (getWorldDirection cam))"
  by (simp add: applyMatrix4_def updateMatrixWorld_def transpose_mat4_def matrixWorld_def
      makeRotationFromEuler_def getWorldDirection_def dot_def Let_def algebra_simps)

lemma behind_rendered_camera_not_visible:
  assumes "0 < near cam" and "near cam < far cam"
    and "dot worldPosition (getWorldDirection cam) < 0"
  shows "visible (projectToScreen win worldPosition (updateMatrixWorld cam)) = False"
proof -
  obtain x y z where p: "worldPosition = (x, y, z)" by (cases worldPosition) auto
  have n: "0 < near (updateMatrixWorld cam)" "near (updateMatrixWorld cam) < far (updateMatrixWorld cam)"
    using assms(1,2) by (simp_all add: updateMatrixWorld_def)
  have "0 < - dot (x, y, z) (getWorldDirection cam)" using assms(3) p by simp
  from behind_stored_view_not_visible [OF n view_depth_rendered [of cam x y z] this]
  show ?thesis unfolding p .
qed

text \<open>What a frame and the handlers do to the camera.\<close>

lemma cameraRef_animate:
  "cameraRef (animate win v) = map_option updateMatrixWorld (cameraRef v)"
  by (simp add: animate_def render_def updateHotspotPositions_def split: option.splits)

lemma hotspotPositions_animate:
  "cameraRef v = Some cam \<Longrightarrow>
   hotspotPositions (animate win v) ''jersey-display'' = Some (projectToScreen win (100, 0, - 200) cam)"
  by (simp add: animate_def render_def updateHotspotPositions_def hotspots_perspective_def)

lemma updateMatrixWorld_fresh:
  "updateMatrixWorld (PerspectiveCamera f a n fr) = PerspectiveCamera f a n fr"
  by (simp add: updateMatrixWorld_def PerspectiveCamera_def matrixWorld_def
      makeRotationFromEuler_def transpose_mat4_def identity_mat4_def)

lemma drag_left_400:
  assumes "cameraRef v = Some cam"
  shows "cameraRef (run dispatch [MouseDown 400 0, MouseMove 0 0] v)
           = Some (cam\<lparr>rotation_y := rotation_y cam + 2,
                       rotation_x := max (- pi / 2) (min (pi / 2) (rotation_x cam))\<rparr>)"
  using assms by (simp add: handleMouseDown_def handleMouseMove_def Let_def)

lemma drag_to_yaw_two:
  "cameraRef (run dispatch [MouseDown 400 0, MouseMove 0 0]
                (animate \<lparr>innerWidth = 1600, innerHeight = 900\<rparr>
                   (mountA \<lparr>innerWidth = 1600, innerHeight = 900\<rparr>)))
     = Some ((PerspectiveCamera 75 (1600 / 900) 0.1 1000)\<lparr>rotation_y := 2\<rparr>)"
proof -
  have m: "cameraRef (animate \<lparr>innerWidth = 1600, innerHeight = 900\<rparr>
                        (mountA \<lparr>innerWidth = 1600, innerHeight = 900\<rparr>))
             = Some (PerspectiveCamera 75 (1600 / 900) 0.1 1000)"
    by (simp add: cameraRef_animate mountA_def updateMatrixWorld_fresh)
  have "min (pi / 2) 0 = (0::real)" by (rule min_absorb2) simp
  moreover have "max (- pi / 2) 0 = (0::real)" by (rule max_absorb2) simp
  ultimately have "max (- pi / 2) (min (pi / 2) 0) = (0::real)" by (simp only:)
  then show ?thesis
    unfolding drag_left_400 [OF m] by (simp add: PerspectiveCamera_def)
qed


text \<open>
  C5. A point strictly behind the camera is to be projected with \<open>visible = false\<close>.
  \<^verbatim>\<open>animate\<close> projects the hotspots before it renders, so in the frame that follows a
  drag \<^verbatim>\<open>projectToScreen\<close> still reads the view matrix of the frame before. After
  mouse-down at \<open>clientX = 400\<close> and a move to \<open>clientX = 0\<close> the camera's yaw is 2; the
  hotspot at \<open>(100, 0, -200)\<close> is then strictly behind the camera, and the next frame
  records it with \<open>visible = true\<close>.
\<close>

theorem stale_view_shows_hotspot_behind_camera:
  "cameraRef (run dispatch [MouseDown 400 0, MouseMove 0 0]
                (animate \<lparr>innerWidth = 1600, innerHeight = 900\<rparr>
                   (mountA \<lparr>innerWidth = 1600, innerHeight = 900\<rparr>)))
     = Some ((PerspectiveCamera 75 (1600 / 900) 0.1 1000)\<lparr>rotation_y := 2\<rparr>) \<and>
   dot (100, 0, - 200)
     (getWorldDirection ((PerspectiveCamera 75 (1600 / 900) 0.1 1000)\<lparr>rotation_y := 2\<rparr>)) < 0 \<and>
   visible (projectToScreen \<lparr>innerWidth = 1600, innerHeight = 900\<rparr> (100, 0, - 200)
              ((PerspectiveCamera 75 (1600 / 900) 0.1 1000)\<lparr>rotation_y := 2\<rparr>)) = True \<and>
   map_option visible
     (hotspotPositions
        (animate \<lparr>innerWidth = 1600, innerHeight = 900\<rparr>
           (run dispatch [MouseDown 400 0, MouseMove 0 0]
              (animate \<lparr>innerWidth = 1600, innerHeight = 900\<rparr>
                 (mountA \<lparr>innerWidth = 1600, innerHeight = 900\<rparr>))))
        ''jersey-display'') = Some True"
proof -
  let ?cam = "(PerspectiveCamera 75 (1600 / 900) 0.1 1000)\<lparr>rotation_y := 2\<rparr>"
  have s: "0 \<le> sin (2::real)" using pi_ge_two by (intro sin_ge_zero) simp_all
  have c: "cos (2::real) < 0" by (rule cos_two_less_zero)
  have "dot (100, 0, - 200) (getWorldDirection ?cam) = 200 * cos 2 - 100 * sin 2"
    by (simp add: dot_def getWorldDirection_def matrixWorld_def makeRotationFromEuler_def
        PerspectiveCamera_def Let_def)
  then have d: "dot (100, 0, - 200) (getWorldDirection ?cam) < 0"
    using s c by linarith
  have v: "visible (projectToScreen \<lparr>innerWidth = 1600, innerHeight = 900\<rparr> (100, 0, - 200) ?cam)
           = True"
    by (simp add: projectToScreen_def project_def applyMatrix4_def projectionMatrix_def
        makePerspective_def identity_mat4_def PerspectiveCamera_def Let_def)
  have h: "map_option visible
     (hotspotPositions
        (animate \<lparr>innerWidth = 1600, innerHeight = 900\<rparr>
           (run dispatch [MouseDown 400 0, MouseMove 0 0]
              (animate \<lparr>innerWidth = 1600, innerHeight = 900\<rparr>
                 (mountA \<lparr>innerWidth = 1600, innerHeight = 900\<rparr>))))
        ''jersey-display'') = Some True"
    unfolding hotspotPositions_animate [OF drag_to_yaw_two] using v by simp
  show ?thesis
    by (intro conjI) (rule drag_to_yaw_two, rule d, rule v, rule h)
qed


section \<open>Undoing a zoom step\<close>

text \<open>Rounding to an integer, ties to even: integers are fixed, order is kept, the error is at most a half.\<close>

lemma round_half_even_of_int: "round_half_even (of_int n) = n"
  by (simp add: round_half_even_def)

lemma round_half_even_ge:
  assumes "of_int n \<le> y" shows "n \<le> round_half_even y"
proof -
  have "n \<le> \<lfloor>y\<rfloor>" using assms by (simp add: le_floor_iff)
  then show ?thesis by (auto simp: round_half_even_def Let_def)
qed

lemma round_half_even_le:
  assumes "y \<le> of_int n" shows "round_half_even y \<le> n"
proof (cases "y = of_int n")
  case True
  then show ?thesis by (simp add: round_half_even_of_int)
next
  case False
  with assms have "y < of_int n" by simp
  then have "\<lfloor>y\<rfloor> < n" by (simp add: floor_less_iff)
  then show ?thesis by (auto simp: round_half_even_def Let_def)
qed

lemma round_half_even_error: "\<bar>of_int (round_half_even y) - y\<bar> \<le> 1 / 2"
proof -
  have "of_int \<lfloor>y\<rfloor> \<le> y" "y < of_int \<lfloor>y\<rfloor> + 1" by linarith+
  then show ?thesis by (auto simp: round_half_even_def Let_def)
qed

text \<open>
  Within the binade \<open>[2 ^ k, 2 ^ (k + 1))\<close> the binary64 numbers are the multiples of
  \<open>1 / 2 ^ (52 - k)\<close>, and \<open>fl64\<close> rounds to the nearest of them.
\<close>

lemma ulp_binade:
  fixes k :: nat
  assumes "k \<le> 52"
  shows "(2::real) powr of_int (int k - 52) = 1 / 2 ^ (52 - k)"
proof -
  have "(of_int (int k - 52) :: real) = - real (52 - k)"
    using assms by (simp add: of_nat_diff)
  then have "(2::real) powr of_int (int k - 52) = 2 powr (- real (52 - k))"
    by (simp only:)
  also have "\<dots> = inverse (2 powr real (52 - k))" by (rule powr_minus)
  also have "\<dots> = inverse (2 ^ (52 - k))" by (simp only: powr_realpow zero_less_numeral)
  finally show ?thesis by (simp only: inverse_eq_divide)
qed

lemma floor_log2_binade:
  fixes k :: nat
  assumes "2 ^ k \<le> x" and "x < 2 ^ (k + 1)"
  shows "\<lfloor>log 2 x\<rfloor> = int k"
proof -
  have pos: "0 < x" using assms(1) zero_less_power [of "2::real" k] by linarith
  have a: "(2::real) powr of_int (int k) = 2 ^ k"
    by (simp add: powr_realpow)
  have "(2::real) powr real (k + 1) = 2 ^ (k + 1)"
    by (rule powr_realpow) simp
  moreover have "(of_int (int k + 1) :: real) = real (k + 1)" by simp
  ultimately have b: "(2::real) powr of_int (int k + 1) = 2 ^ (k + 1)"
    by (simp only:)
  have "(2::real) powr of_int (int k) \<le> x \<and> x < 2 powr (of_int (int k + 1))"
    unfolding a b using assms by (rule conjI)
  moreover have "(1::real) < 2" by simp
  ultimately show ?thesis
    using floor_log_eq_powr_iff [OF pos, of 2 "int k"] by (simp only: of_int_add of_int_1)
qed

lemma fl64_binade:
  fixes k :: nat
  assumes "k \<le> 52" and "2 ^ k \<le> x" and "x < 2 ^ (k + 1)"
  shows "fl64 x = of_int (round_half_even (x * 2 ^ (52 - k))) / 2 ^ (52 - k)"
proof -
  have pos: "0 < x" using assms(2) zero_less_power [of "2::real" k] by linarith
  then have ax: "\<bar>x\<bar> = x" "x \<noteq> 0" by simp_all
  have e: "\<lfloor>log 2 x\<rfloor> = int k" using assms(2,3) by (rule floor_log2_binade)
  show ?thesis
    unfolding fl64_def Let_def ax e ulp_binade [OF assms(1)] using ax(2) by simp
qed

lemma fl64_exact:
  fixes k :: nat
  assumes "k \<le> 52" and "2 ^ k \<le> x" and "x < 2 ^ (k + 1)" and "x * 2 ^ (52 - k) = of_int m"
  shows "fl64 x = x"
proof -
  have "fl64 x = of_int m / 2 ^ (52 - k)"
    by (simp only: fl64_binade [OF assms(1-3)] assms(4) round_half_even_of_int)
  also have "\<dots> = x" unfolding assms(4) [symmetric] by simp
  finally show ?thesis .
qed

lemma fl64_mantissa:
  fixes k :: nat
  assumes "k \<le> 52" and "2 ^ k \<le> x" and "x < 2 ^ (k + 1)" and "fl64 x = x"
  shows "\<exists>m. x * 2 ^ (52 - k) = of_int m"
proof -
  have "x = of_int (round_half_even (x * 2 ^ (52 - k))) / 2 ^ (52 - k)"
    using fl64_binade [OF assms(1-3)] assms(4) by (simp only:)
  then have "x * 2 ^ (52 - k) = of_int (round_half_even (x * 2 ^ (52 - k)))"
    by (simp add: field_simps)
  then show ?thesis ..
qed

lemma binade_cases:
  fixes x :: real
  assumes "8 \<le> x" and "x < 128"
  obtains k :: nat where "3 \<le> k" and "k \<le> 6" and "2 ^ k \<le> x" and "x < 2 ^ (k + 1)"
proof -
  consider "x < 16" | "16 \<le> x" "x < 32" | "32 \<le> x" "x < 64" | "64 \<le> x"
    by linarith
  then show ?thesis
  proof cases
    case 1
    with assms show ?thesis by (intro that [of 3]) simp_all
  next
    case 2
    then show ?thesis by (intro that [of 4]) simp_all
  next
    case 3
    then show ?thesis by (intro that [of 5]) simp_all
  next
    case 4
    with assms show ?thesis by (intro that [of 6]) simp_all
  qed
qed

lemma rescale_minus_ten:
  fixes j k :: nat and x :: real
  assumes "j \<le> k" and "k \<le> 52" and "x * 2 ^ (52 - k) = of_int m"
  shows "(x - 10) * 2 ^ (52 - j) = of_int ((m - 10 * 2 ^ (52 - k)) * 2 ^ (k - j))"
proof -
  have "52 - j = (52 - k) + (k - j)" using assms(1,2) by simp
  then have p: "(2::real) ^ (52 - j) = 2 ^ (52 - k) * 2 ^ (k - j)"
    by (simp only: power_add)
  have "(x - 10) * 2 ^ (52 - j) = (x * 2 ^ (52 - k) - 10 * 2 ^ (52 - k)) * 2 ^ (k - j)"
    unfolding p by (simp add: algebra_simps)
  also have "\<dots> = of_int ((m - 10 * 2 ^ (52 - k)) * 2 ^ (k - j))"
    unfolding assms(3) by simp
  finally show ?thesis .
qed

text \<open>Subtracting 10 from a binary64 number in \<open>[20, 120]\<close> is exact.\<close>

lemma fl64_minus_ten:
  assumes "fl64 f = f" and "20 \<le> f" and "f \<le> 120"
  shows "fl64 (f - 10) = f - 10"
proof -
  have rf: "8 \<le> f" "f < 128" and rg: "8 \<le> f - 10" "f - 10 < 128"
    using assms(2,3) by simp_all
  obtain k :: nat where k: "3 \<le> k" "k \<le> 6" "2 ^ k \<le> f" "f < 2 ^ (k + 1)"
    by (rule binade_cases [OF rf])
  obtain j :: nat where j: "3 \<le> j" "j \<le> 6" "2 ^ j \<le> f - 10" "f - 10 < 2 ^ (j + 1)"
    by (rule binade_cases [OF rg])
  have "(2::real) ^ j < 2 ^ (k + 1)" using j(3) k(4) by linarith
  then have "j < k + 1" by (rule power_less_imp_less_exp [rotated]) simp
  then have jk: "j \<le> k" by simp
  have k52: "k \<le> 52" "j \<le> 52" using k(2) j(2) by simp_all
  obtain m where m: "f * 2 ^ (52 - k) = of_int m"
    using fl64_mantissa [OF k52(1) k(3,4) assms(1)] ..
  show ?thesis
    using fl64_exact [OF k52(2) j(3,4) rescale_minus_ten [OF jk k52(1) m]] .
qed

text \<open>
  Rounding a real in \<open>[20, 120]\<close>: the result is a binary64 number of that interval, at
  most half a unit in the last place of the binade \<open>[64, 128)\<close> away.
\<close>

lemma fl64_in_range:
  assumes "20 \<le> y" and "y \<le> 120"
  shows "fl64 (fl64 y) = fl64 y" and "20 \<le> fl64 y" and "fl64 y \<le> 120"
    and "\<bar>fl64 y - y\<bar> \<le> 1 / 2 ^ 47"
proof -
  have ry: "8 \<le> y" "y < 128" using assms by simp_all
  obtain k :: nat where k: "3 \<le> k" "k \<le> 6" "2 ^ k \<le> y" "y < 2 ^ (k + 1)"
    by (rule binade_cases [OF ry])
  have k52: "k \<le> 52" "k + 1 \<le> 52" using k(2) by simp_all
  define s :: real where "s = 2 ^ (52 - k)"
  define r where "r = round_half_even (y * s)"
  have s: "0 < s" by (simp add: s_def)
  have fy: "fl64 y = of_int r / s"
    unfolding r_def s_def by (rule fl64_binade [OF k52(1) k(3,4)])
  have "k + (52 - k) = 52" "(k + 1) + (52 - k) = 53" using k52(1) by simp_all
  then have p: "(2::real) ^ k * s = 2 ^ 52" "(2::real) ^ (k + 1) * s = 2 ^ 53"
    unfolding s_def by (simp_all only: power_add [symmetric])
  have s0: "0 \<le> s" using s by simp
  have c: "(of_int (2 ^ 52) :: real) = 2 ^ k * s" "(of_int (2 ^ 53) :: real) = 2 ^ (k + 1) * s"
    "(of_int (20 * 2 ^ (52 - k)) :: real) = 20 * s" "(of_int (120 * 2 ^ (52 - k)) :: real) = 120 * s"
    unfolding p by (simp_all add: s_def)
  have lo: "of_int (2 ^ 52) \<le> y * s" "of_int (20 * 2 ^ (52 - k)) \<le> y * s"
    unfolding c using k(3) assms(1) s0 by (simp_all only: mult_right_mono)
  have "y \<le> 2 ^ (k + 1)" using k(4) by simp
  then have hi: "y * s \<le> of_int (2 ^ 53)" "y * s \<le> of_int (120 * 2 ^ (52 - k))"
    unfolding c using assms(2) s0 by (simp_all only: mult_right_mono)
  have r_lo: "2 ^ 52 \<le> r" "20 * 2 ^ (52 - k) \<le> r"
    unfolding r_def by (rule round_half_even_ge [OF lo(1)], rule round_half_even_ge [OF lo(2)])
  have r_hi: "r \<le> 2 ^ 53" "r \<le> 120 * 2 ^ (52 - k)"
    unfolding r_def by (rule round_half_even_le [OF hi(1)], rule round_half_even_le [OF hi(2)])
  have "(of_int (20 * 2 ^ (52 - k)) :: real) \<le> of_int r" using r_lo(2) by (simp only: of_int_le_iff)
  then have "20 * s \<le> of_int r" unfolding c .
  then show ge: "20 \<le> fl64 y" unfolding fy using s by (simp add: pos_le_divide_eq)
  have "(of_int r :: real) \<le> of_int (120 * 2 ^ (52 - k))" using r_hi(2) by (simp only: of_int_le_iff)
  then have "of_int r \<le> 120 * s" unfolding c .
  then show le: "fl64 y \<le> 120" unfolding fy using s by (simp add: pos_divide_le_eq)
  show "\<bar>fl64 y - y\<bar> \<le> 1 / 2 ^ 47"
  proof -
    have e: "\<bar>of_int r - y * s\<bar> \<le> 1 / 2" unfolding r_def by (rule round_half_even_error)
    have "fl64 y - y = (of_int r - y * s) / s" unfolding fy using s by (simp add: field_simps)
    then have "\<bar>fl64 y - y\<bar> = \<bar>of_int r - y * s\<bar> / s" using s by (simp only: abs_divide abs_of_pos)
    also have "\<dots> \<le> (1 / 2) / s" using e s0 by (rule divide_right_mono)
    also have "\<dots> \<le> (1 / 2) / 2 ^ 46"
    proof -
      have "(2::real) ^ 46 \<le> 2 ^ (52 - k)" using k(2) by (intro power_increasing) simp_all
      then show ?thesis unfolding s_def by (intro divide_left_mono) simp_all
    qed
    finally show ?thesis by simp
  qed
  show "fl64 (fl64 y) = fl64 y"
  proof (cases "of_int r / s < (2::real) ^ (k + 1)")
    case True
    have "(of_int (2 ^ 52) :: real) \<le> of_int r" using r_lo(1) by (simp only: of_int_le_iff)
    then have "2 ^ k * s \<le> of_int r" unfolding c .
    then have a: "2 ^ k \<le> of_int r / s" using s by (simp add: pos_le_divide_eq)
    have "of_int r / s * 2 ^ (52 - k) = of_int r" using s by (simp add: s_def)
    from fl64_exact [OF k52(1) a True this] show ?thesis unfolding fy .
  next
    case False
    have "(of_int r :: real) \<le> of_int (2 ^ 53)" using r_hi(1) by (simp only: of_int_le_iff)
    then have "of_int r \<le> 2 ^ (k + 1) * s" unfolding c .
    then have "of_int r / s \<le> 2 ^ (k + 1)" using s by (simp add: pos_divide_le_eq)
    with False have eq: "of_int r / s = (2::real) ^ (k + 1)" by simp
    have "(k + 1) + (52 - (k + 1)) = 52" using k52(2) by simp
    then have "(2::real) ^ (k + 1) * 2 ^ (52 - (k + 1)) = 2 ^ 52"
      by (simp only: power_add [symmetric])
    then have m: "(2::real) ^ (k + 1) * 2 ^ (52 - (k + 1)) = of_int (2 ^ 52)" by simp
    have "fl64 (2 ^ (k + 1)) = 2 ^ (k + 1)"
      by (rule fl64_exact [OF k52(2) _ _ m]) simp_all
    then show ?thesis unfolding fy eq .
  qed
qed

text \<open>
  The binary64 number nearest to 54.15 is \<open>7620934994441011 / 2 ^ 47\<close>; it is the field of
  view that one wheel event with \<open>deltaY = -417\<close> leaves from the default 75. Zooming out
  gives \<open>64.15\<close> rounded in the coarser binade \<open>[64, 128)\<close>, and zooming in again gives
  \<open>7620934994441012 / 2 ^ 47\<close>, the next binary64 number above the start.
\<close>

theorem zoom_round_trip_binary64_counterexample:
  "fl64 (7620934994441011 / 2 ^ 47) = 7620934994441011 / 2 ^ 47 \<and>
   (10::real) \<le> 7620934994441011 / 2 ^ 47 \<and>
   (7620934994441011 / 2 ^ 47 + 10 :: real) \<le> 120 \<and>
   map_option fov
     (cameraRef (zoomIn64 (zoomOut64
        ((mount \<lparr>innerWidth = 1600, innerHeight = 900\<rparr>)
           \<lparr>cameraRef := Some ((PerspectiveCamera 75 (1600 / 900) 0.1 1000)
                                 \<lparr>fov := 7620934994441011 / 2 ^ 47\<rparr>)\<rparr>))))
     = Some (7620934994441012 / 2 ^ 47) \<and>
   (7620934994441012 / 2 ^ 47 :: real) \<noteq> 7620934994441011 / 2 ^ 47"
proof -
  have a: "fl64 (7620934994441011 / 2 ^ 47) = 7620934994441011 / 2 ^ 47"
    by (rule fl64_exact [where k = 5 and m = 7620934994441011]) simp_all
  have "round_half_even (9028309877994291 / 2) = 4514154938997146"
    by (simp add: round_half_even_def Let_def)
  then have b: "fl64 (7620934994441011 / 2 ^ 47 + 10) = 4514154938997146 / 2 ^ 46"
    by (subst fl64_binade [where k = 6]) simp_all
  have c: "fl64 (4514154938997146 / 2 ^ 46 - 10) = 7620934994441012 / 2 ^ 47"
  proof -
    have "fl64 (7620934994441012 / 2 ^ 47) = 7620934994441012 / 2 ^ 47"
      by (rule fl64_exact [where k = 5 and m = 7620934994441012]) simp_all
    moreover have "(4514154938997146 / 2 ^ 46 - 10 :: real) = 7620934994441012 / 2 ^ 47"
      by simp
    ultimately show ?thesis by (simp only:)
  qed
  have d: "min 120 (4514154938997146 / 2 ^ 46 :: real) = 4514154938997146 / 2 ^ 46"
    "max 10 (7620934994441012 / 2 ^ 47 :: real) = 7620934994441012 / 2 ^ 47"
    by simp_all
  have "map_option fov
     (cameraRef (zoomIn64 (zoomOut64
        ((mount \<lparr>innerWidth = 1600, innerHeight = 900\<rparr>)
           \<lparr>cameraRef := Some ((PerspectiveCamera 75 (1600 / 900) 0.1 1000)
                                 \<lparr>fov := 7620934994441011 / 2 ^ 47\<rparr>)\<rparr>))))
     = Some (max 10 (fl64 (min 120 (fl64 (7620934994441011 / 2 ^ 47 + 10)) - 10)))"
    by (simp add: zoomIn64_def zoomOut64_def)
  then have e: "map_option fov
     (cameraRef (zoomIn64 (zoomOut64
        ((mount \<lparr>innerWidth = 1600, innerHeight = 900\<rparr>)
           \<lparr>cameraRef := Some ((PerspectiveCamera 75 (1600 / 900) 0.1 1000)
                                 \<lparr>fov := 7620934994441011 / 2 ^ 47\<rparr>)\<rparr>))))
     = Some (7620934994441012 / 2 ^ 47)"
    by (simp only: b c d)
  show ?thesis
    by (intro conjI) (rule a, simp, simp, rule e, simp)
qed

text \<open>
  C7, amended. For a camera whose field of view \<open>f\<close> is a binary64 number in
  \<open>[10, 120]\<close>: if zooming in is not clamped at the lower bound (\<open>10 \<le> f - 10\<close>), zoom-in
  followed by zoom-out restores the state, and so \<open>f\<close>, exactly. If zooming out is not
  clamped at the upper bound (\<open>f + 10 \<le> 120\<close>), zoom-out followed by zoom-in leaves the
  field of view at the rounded sum less 10, which is within \<open>1 / 2 ^ 47\<close> of \<open>f\<close>, and
  restores the state exactly when \<open>f + 10\<close> is itself a binary64 number.
\<close>

theorem zoom_round_trip_binary64:
  fixes v :: "'a viewer_scheme"
  assumes "cameraRef v = Some c" and "fl64 (fov c) = fov c"
    and "10 \<le> fov c" and "fov c \<le> 120"
  shows "(10 \<le> fov c - 10 \<longrightarrow> zoomOut64 (zoomIn64 v) = v) \<and>
         (fov c + 10 \<le> 120 \<longrightarrow>
            zoomIn64 (zoomOut64 v) = v\<lparr>cameraRef := Some (c\<lparr>fov := fl64 (fov c + 10) - 10\<rparr>)\<rparr> \<and>
            \<bar>fl64 (fov c + 10) - 10 - fov c\<bar> \<le> 1 / 2 ^ 47 \<and>
            (fl64 (fov c + 10) = fov c + 10 \<longrightarrow> zoomIn64 (zoomOut64 v) = v))"
proof (intro conjI impI)
  assume "10 \<le> fov c - 10"
  then have "20 \<le> fov c" by simp
  from fl64_minus_ten [OF assms(2) this assms(4)]
  have "fl64 (fov c - 10) = fov c - 10" .
  then show "zoomOut64 (zoomIn64 v) = v"
    using assms \<open>10 \<le> fov c - 10\<close> by (simp add: zoomIn64_def zoomOut64_def)
next
  assume up: "fov c + 10 \<le> 120"
  have lo: "20 \<le> fov c + 10" using assms(3) by simp
  note r = fl64_in_range [OF lo up]
  have m: "fl64 (fl64 (fov c + 10) - 10) = fl64 (fov c + 10) - 10"
    by (rule fl64_minus_ten [OF r(1,2,3)])
  show s: "zoomIn64 (zoomOut64 v) = v\<lparr>cameraRef := Some (c\<lparr>fov := fl64 (fov c + 10) - 10\<rparr>)\<rparr>"
    using assms(1) r(2,3) m by (simp add: zoomIn64_def zoomOut64_def)
  show "\<bar>fl64 (fov c + 10) - 10 - fov c\<bar> \<le> 1 / 2 ^ 47"
    using r(4) by (simp add: algebra_simps)
  assume "fl64 (fov c + 10) = fov c + 10"
  then show "zoomIn64 (zoomOut64 v) = v"
    unfolding s using assms(1) by simp
qed

text \<open>
  An instance: the mounted viewer, whose field of view is 75; 65 and 85 are binary64
  numbers, and both round trips restore the state.
\<close>

theorem zoom_round_trip_binary64_witness:
  "cameraRef (mount \<lparr>innerWidth = 1600, innerHeight = 900\<rparr>) =
     Some (PerspectiveCamera 75 (1600 / 900) 0.1 1000) \<and>
   fl64 (fov (PerspectiveCamera 75 (1600 / 900) 0.1 1000)) =
     fov (PerspectiveCamera 75 (1600 / 900) 0.1 1000) \<and>
   10 \<le> fov (PerspectiveCamera 75 (1600 / 900) 0.1 1000) \<and>
   fov (PerspectiveCamera 75 (1600 / 900) 0.1 1000) \<le> 120 \<and>
   10 \<le> fov (PerspectiveCamera 75 (1600 / 900) 0.1 1000) - 10 \<and>
   fov (PerspectiveCamera 75 (1600 / 900) 0.1 1000) + 10 \<le> 120 \<and>
   fl64 (fov (PerspectiveCamera 75 (1600 / 900) 0.1 1000) + 10) =
     fov (PerspectiveCamera 75 (1600 / 900) 0.1 1000) + 10 \<and>
   zoomOut64 (zoomIn64 (mount \<lparr>innerWidth = 1600, innerHeight = 900\<rparr>)) =
     mount \<lparr>innerWidth = 1600, innerHeight = 900\<rparr> \<and>
   zoomIn64 (zoomOut64 (mount \<lparr>innerWidth = 1600, innerHeight = 900\<rparr>)) =
     mount \<lparr>innerWidth = 1600, innerHeight = 900\<rparr>"
proof -
  have f: "fov (PerspectiveCamera 75 (1600 / 900) 0.1 1000) = 75"
    by (simp add: PerspectiveCamera_def)
  have h1: "cameraRef (mount \<lparr>innerWidth = 1600, innerHeight = 900\<rparr>) =
              Some (PerspectiveCamera 75 (1600 / 900) 0.1 1000)"
    by (simp add: mount_def)
  have h2: "fl64 (fov (PerspectiveCamera 75 (1600 / 900) 0.1 1000)) =
              fov (PerspectiveCamera 75 (1600 / 900) 0.1 1000)"
    unfolding f by (rule fl64_exact [where k = 6 and m = "75 * 2 ^ 46"]) simp_all
  have h3: "10 \<le> fov (PerspectiveCamera 75 (1600 / 900) 0.1 1000)"
    and h4: "fov (PerspectiveCamera 75 (1600 / 900) 0.1 1000) \<le> 120"
    and h5: "10 \<le> fov (PerspectiveCamera 75 (1600 / 900) 0.1 1000) - 10"
    and h6: "fov (PerspectiveCamera 75 (1600 / 900) 0.1 1000) + 10 \<le> 120"
    unfolding f by simp_all
  have h7: "fl64 (fov (PerspectiveCamera 75 (1600 / 900) 0.1 1000) + 10) =
              fov (PerspectiveCamera 75 (1600 / 900) 0.1 1000) + 10"
    unfolding f by (rule fl64_exact [where k = 6 and m = "85 * 2 ^ 46"]) simp_all
  from zoom_round_trip_binary64 [OF h1 h2 h3 h4] h1 h2 h3 h4 h5 h6 h7 show ?thesis by blast
qed

section \<open>Reset, loading and the frame of the zoom operations\<close>

text \<open>
  C8. Whatever the camera's yaw, pitch and field of view were, after the reset operation
  the yaw is 0, the pitch is 0 and the field of view is 75.
\<close>

theorem reset_yields_default:
  fixes v :: "'a viewer_scheme"
  shows "\<exists>c'. cameraRef (resetView (v\<lparr>cameraRef := Some c\<rparr>)) = Some c' \<and>
           rotation_y c' = 0 \<and> rotation_x c' = 0 \<and> fov c' = 75"
  by (simp add: resetView_def)

text \<open>
  C9. The failure continuation of the texture load clears the loading flag and leaves
  the scene and the sphere reference as they were; the success continuation clears the
  loading flag and adds the sphere, textured with what was loaded, to the scene.
\<close>

theorem load_continuations:
  fixes v :: "'a viewer_scheme"
  shows "isLoading (onError err v) = False \<and>
         sceneChildren (onError err v) = sceneChildren v \<and>
         sphereRef (onError err v) = sphereRef v \<and>
         isLoading (onLoad tex v) = False \<and>
         (\<exists>sphere. sphereRef (onLoad tex v) = Some sphere \<and>
                   sceneChildren (onLoad tex v) = sceneChildren v @ [sphere] \<and>
                   material_map sphere = tex)"
  by (simp add: onError_def onLoad_def Let_def)

text \<open>
  C10. The scroll-wheel handler, zoom-in and zoom-out leave the camera's yaw and pitch
  as they were; each changes the state in the camera's field of view and nowhere else.
\<close>

theorem zoom_and_wheel_keep_rotation:
  fixes v :: "'a viewer_scheme"
  shows "map_option rotation_y (cameraRef (handleWheel deltaY v)) =
           map_option rotation_y (cameraRef v) \<and>
         map_option rotation_x (cameraRef (handleWheel deltaY v)) =
           map_option rotation_x (cameraRef v) \<and>
         map_option rotation_y (cameraRef (zoomIn v)) = map_option rotation_y (cameraRef v) \<and>
         map_option rotation_x (cameraRef (zoomIn v)) = map_option rotation_x (cameraRef v) \<and>
         map_option rotation_y (cameraRef (zoomOut v)) = map_option rotation_y (cameraRef v) \<and>
         map_option rotation_x (cameraRef (zoomOut v)) = map_option rotation_x (cameraRef v) \<and>
         (\<exists>f1 f2 f3.
            handleWheel deltaY v =
              v\<lparr>cameraRef := map_option (\<lambda>cam. cam\<lparr>fov := f1\<rparr>) (cameraRef v)\<rparr> \<and>
            zoomIn v = v\<lparr>cameraRef := map_option (\<lambda>cam. cam\<lparr>fov := f2\<rparr>) (cameraRef v)\<rparr> \<and>
            zoomOut v = v\<lparr>cameraRef := map_option (\<lambda>cam. cam\<lparr>fov := f3\<rparr>) (cameraRef v)\<rparr>)"
  by (cases "cameraRef v") (auto simp add: handleWheel_def zoomIn_def zoomOut_def Let_def)

end

